theory Spec2Isabelle
  imports Main "HOL-Library.Char_ord" "HOL-Library.Sublist"
begin

section \<open>Go library functions used by the proxy\<close>

text \<open>
  The proxy of \<^verbatim>\<open>main.go\<close> is one \<^verbatim>\<open>httputil.ReverseProxy\<close> whose four hooks
  (\<^verbatim>\<open>Director\<close>, \<^verbatim>\<open>Transport\<close>, \<^verbatim>\<open>ModifyResponse\<close>, \<^verbatim>\<open>ErrorHandler\<close>) are
  closures defined in \<^verbatim>\<open>main\<close>. The closures are embedded below as functions of the
  values they close over. Go strings are byte strings: \<^typ>\<open>string\<close>. The second copy
  of the program, which logs through \<^verbatim>\<open>logrus\<close>, has the same four closures.

  The functions of package \<^verbatim>\<open>strings\<close> that the closures call are written out as
  the Go library defines them.
\<close>

text \<open>\<^verbatim>\<open>len(s) >= len(prefix) && s[:len(prefix)] == prefix\<close>\<close>

definition HasPrefix :: "string \<Rightarrow> string \<Rightarrow> bool" where
  "HasPrefix s pre = (length pre \<le> length s \<and> take (length pre) s = pre)"

text \<open>\<^verbatim>\<open>len(s) >= len(suffix) && s[len(s)-len(suffix):] == suffix\<close>\<close>

definition HasSuffix :: "string \<Rightarrow> string \<Rightarrow> bool" where
  "HasSuffix s suf = (length suf \<le> length s \<and> drop (length s - length suf) s = suf)"

text \<open>\<^verbatim>\<open>if HasPrefix(s, prefix) { return s[len(prefix):] }; return s\<close>\<close>

definition TrimPrefix :: "string \<Rightarrow> string \<Rightarrow> string" where
  "TrimPrefix s pre = (if HasPrefix s pre then drop (length pre) s else s)"

text \<open>
  \<^verbatim>\<open>strings.Contains(s, substr)\<close> is \<^verbatim>\<open>Index(s, substr) >= 0\<close>: some position of
  \<open>s\<close> starts an occurrence of \<open>substr\<close>. The positions are tried from the left.
\<close>

fun Contains :: "string \<Rightarrow> string \<Rightarrow> bool" where
  "Contains [] substr = (substr = [])"
| "Contains (c # cs) substr = (HasPrefix (c # cs) substr \<or> Contains cs substr)"

subsection \<open>Header maps\<close>

text \<open>
  \<^verbatim>\<open>http.Header\<close> is \<^verbatim>\<open>map[string][]string\<close>: each key holds its values in order.
  \<^verbatim>\<open>Del\<close>, \<^verbatim>\<open>Set\<close> and \<^verbatim>\<open>Values\<close> address the key in its canonical form
  (\<^verbatim>\<open>textproto.CanonicalMIMEHeaderKey\<close>): the first letter and every letter after a
  hyphen in upper case, the others in lower case; a key holding a byte that is not a
  token character is left as it is. The keys of a request read by the server are
  canonical already.
\<close>

type_synonym header = "string \<rightharpoonup> string list"

definition toLower :: nat where
  "toLower = 32"

definition validHeaderFieldByte :: "char \<Rightarrow> bool" where
  "validHeaderFieldByte c =
     ((CHR ''a'' \<le> c \<and> c \<le> CHR ''z'') \<or> (CHR ''A'' \<le> c \<and> c \<le> CHR ''Z'') \<or>
      (CHR ''0'' \<le> c \<and> c \<le> CHR ''9'') \<or>
      c \<in> set (CHR 0x27 # ''!#$%&*+-.^_`|~''))"

fun canonicalMIMEHeaderKey :: "bool \<Rightarrow> string \<Rightarrow> string" where
  "canonicalMIMEHeaderKey upper [] = []"
| "canonicalMIMEHeaderKey upper (c # cs) =
     (let c' = (if upper \<and> CHR ''a'' \<le> c \<and> c \<le> CHR ''z''
                then char_of (of_char c - toLower)
                else if \<not> upper \<and> CHR ''A'' \<le> c \<and> c \<le> CHR ''Z''
                then char_of (of_char c + toLower)
                else c)
      in c' # canonicalMIMEHeaderKey (c' = CHR ''-'') cs)"

definition CanonicalMIMEHeaderKey :: "string \<Rightarrow> string" where
  "CanonicalMIMEHeaderKey s =
     (if list_all validHeaderFieldByte s then canonicalMIMEHeaderKey True s else s)"

definition Header_Del :: "header \<Rightarrow> string \<Rightarrow> header" where
  "Header_Del h key = h(CanonicalMIMEHeaderKey key := None)"

definition Header_Set :: "header \<Rightarrow> string \<Rightarrow> string \<Rightarrow> header" where
  "Header_Set h key val = h(CanonicalMIMEHeaderKey key \<mapsto> [val])"

definition Header_Values :: "header \<Rightarrow> string \<Rightarrow> string list" where
  "Header_Values h key = (case h (CanonicalMIMEHeaderKey key) of None \<Rightarrow> [] | Some vs \<Rightarrow> vs)"

section \<open>Requests, responses and the log\<close>

text \<open>
  The fields of \<^verbatim>\<open>url.URL\<close>, \<^verbatim>\<open>http.Request\<close> and \<^verbatim>\<open>http.Response\<close> that the
  closures read or write, and the body, which they never touch. \<open>backend\<close> is the
  value \<^verbatim>\<open>url.Parse(backendURL)\<close> returned.
\<close>

record url =
  Scheme :: string
  Host :: string
  Path :: string
  RawQuery :: string

record request =
  Method :: string
  URL :: url
  Host :: string
  Header :: header
  Body :: string

record response =
  Status :: string
  StatusCode :: nat
  Header :: header
  Trailer :: "string list"
  Body :: string

text \<open>One constructor for each \<^verbatim>\<open>log.Printf\<close> of the closures, holding its arguments.\<close>

datatype log_event =
    Proxying_request string url url
  | Path_mapping string string
  | Response_received string
  | Found_Set_Cookie_headers nat
  | Set_Cookie nat string
  | Response_Header string string
  | Proxy_error string string string

section \<open>The Director: path mapping and request headers\<close>

text \<open>
  Lines 84 to 92 of \<^verbatim>\<open>main.go\<close>: the local variable \<^verbatim>\<open>originalPath\<close> after the
  \<^verbatim>\<open>if\<close>. A path under the frontend prefix loses the prefix, and the empty
  remainder becomes \<^verbatim>\<open>"/"\<close>; any other path is kept.
\<close>

definition originalPath :: "string \<Rightarrow> string \<Rightarrow> string" where
  "originalPath frontendAPIPrefix p =
     (if HasPrefix p frontendAPIPrefix
      then (let p' = TrimPrefix p frontendAPIPrefix in if p' = [] then ''/'' else p')
      else p)"

text \<open>
  The closure \<^verbatim>\<open>proxy.Director\<close>, in the order of its statements. It mutates the
  request; the model returns the request as it leaves the closure, and the two log lines.
\<close>

definition Director :: "string \<Rightarrow> url \<Rightarrow> request \<Rightarrow> request \<times> log_event list" where
  "Director frontendAPIPrefix backend req =
     (let before = URL req;
          u = (URL req)\<lparr>Scheme := Scheme backend, url.Host := url.Host backend\<rparr>;
          orig = originalPath frontendAPIPrefix (Path u);
          u = u\<lparr>Path := Path backend @ TrimPrefix orig ''/''\<rparr>;
          h = Header_Del (request.Header req) ''X-Forwarded-Host'';
          h = Header_Del h ''X-Real-IP'';
          h = Header_Del h ''X-Forwarded-For'';
          h = Header_Del h ''X-Forwarded-Proto'';
          h = Header_Set h ''Connection'' ''close'';
          req = req\<lparr>URL := u, request.Host := url.Host backend, request.Header := h\<rparr>
      in (req, [Proxying_request (Method req) before u, Path_mapping orig (Path u)]))"

definition outbound :: "string \<Rightarrow> url \<Rightarrow> request \<Rightarrow> request" where
  "outbound frontendAPIPrefix backend req = fst (Director frontendAPIPrefix backend req)"

text \<open>An inbound request with the path \<open>p\<close>.\<close>

definition with_path :: "request \<Rightarrow> string \<Rightarrow> request" where
  "with_path req p = req\<lparr>URL := (URL req)\<lparr>Path := p\<rparr>\<rparr>"

text \<open>
  The path rewriting as the specification words it: the backend base path, followed by
  the inbound path without the frontend prefix and without a leading slash.
\<close>

fun strip_leading_slash :: "string \<Rightarrow> string" where
  "strip_leading_slash [] = []"
| "strip_leading_slash (c # cs) = (if c = CHR ''/'' then cs else c # cs)"

definition spec_rewritten_path :: "string \<Rightarrow> string \<Rightarrow> string \<Rightarrow> string" where
  "spec_rewritten_path backendBasePath frontendPrefix p =
     backendBasePath @ strip_leading_slash (drop (length frontendPrefix) p)"

section \<open>The Transport\<close>

text \<open>
  The literal \<^verbatim>\<open>&http.Transport{...}\<close> of lines 115 to 132, with the
  \<^verbatim>\<open>tls.Config\<close> and the \<^verbatim>\<open>net.Dialer\<close> inside it. A \<^verbatim>\<open>time.Duration\<close> is a
  number of nanoseconds; \<^verbatim>\<open>time.Second\<close> is 1000000000.
\<close>

definition Second :: int where
  "Second = 1000000000"

record tls_Config =
  InsecureSkipVerify :: bool

record net_Dialer =
  Timeout :: int
  KeepAlive :: int

record http_Transport =
  TLSClientConfig :: tls_Config
  ResponseHeaderTimeout :: int
  IdleConnTimeout :: int
  MaxIdleConns :: int
  MaxIdleConnsPerHost :: int
  DialContext :: net_Dialer
  ForceAttemptHTTP2 :: bool

definition Transport :: http_Transport where
  "Transport =
     \<lparr>TLSClientConfig = \<lparr>InsecureSkipVerify = True\<rparr>,
      ResponseHeaderTimeout = 60 * Second,
      IdleConnTimeout = 120 * Second,
      MaxIdleConns = 100,
      MaxIdleConnsPerHost = 10,
      DialContext = \<lparr>Timeout = 30 * Second, KeepAlive = 30 * Second\<rparr>,
      ForceAttemptHTTP2 = True\<rparr>"

section \<open>ModifyResponse: logging the response\<close>

text \<open>
  The closure \<^verbatim>\<open>proxy.ModifyResponse\<close> receives a pointer to the response and returns
  an \<^verbatim>\<open>error\<close>. The model returns the response as the closure leaves it, the error
  (\<open>None\<close> is \<^verbatim>\<open>nil\<close>) and the log lines in the order they are printed.
\<close>

datatype go_error = Error string

definition importantHeaders :: "string list" where
  "importantHeaders =
     [''Content-Type'', ''Content-Length'', ''Cache-Control'', ''Access-Control-Allow-Origin'']"

definition ModifyResponse :: "response \<Rightarrow> (response \<times> go_error option) \<times> log_event list" where
  "ModifyResponse resp =
     (let l1 = [Response_received (Status resp)];
          cookies = Header_Values (response.Header resp) ''Set-Cookie'';
          l2 = (if 0 < length cookies
                then Found_Set_Cookie_headers (length cookies) #
                     map (\<lambda>(i, cookie). Set_Cookie i cookie) (enumerate 0 cookies)
                else []);
          l3 = concat (map (\<lambda>header.
                  let vals = Header_Values (response.Header resp) header
                  in if 0 < length vals then map (Response_Header header) vals else [])
                importantHeaders)
      in ((resp, None), l1 @ l2 @ l3))"

section \<open>ErrorHandler: the status for a transport failure\<close>

text \<open>
  \<^verbatim>\<open>http.Error(w, error, code)\<close> writes the status \<open>code\<close> and the body \<open>error\<close>
  followed by a newline. The three status constants are those of \<^verbatim>\<open>net/http\<close>.
\<close>

definition StatusBadGateway :: nat where
  "StatusBadGateway = 502"

definition StatusServiceUnavailable :: nat where
  "StatusServiceUnavailable = 503"

definition StatusGatewayTimeout :: nat where
  "StatusGatewayTimeout = 504"

record reply =
  code :: nat
  body :: string

definition http_Error :: "string \<Rightarrow> nat \<Rightarrow> reply" where
  "http_Error error c = \<lparr>code = c, body = error @ [CHR 0x0A]\<rparr>"

text \<open>
  The closure \<^verbatim>\<open>proxy.ErrorHandler\<close>; \<open>err\<close> is the text \<^verbatim>\<open>err.Error()\<close>. It returns
  what was written to the caller, and the log line.
\<close>

definition ErrorHandler :: "request \<Rightarrow> string \<Rightarrow> reply \<times> log_event list" where
  "ErrorHandler r err =
     (let l = [Proxy_error (Method r) (Path (URL r)) err]
      in if Contains err ''timeout''
         then (http_Error ''Gateway Timeout'' StatusGatewayTimeout, l)
         else if Contains err ''connection refused''
         then (http_Error ''Service Unavailable'' StatusServiceUnavailable, l)
         else (http_Error ''Bad Gateway'' StatusBadGateway, l))"

definition caller_status :: "request \<Rightarrow> string \<Rightarrow> nat" where
  "caller_status r err = code (fst (ErrorHandler r err))"

section \<open>ReverseProxy.ServeHTTP around the hooks\<close>

text \<open>
  The handler of \<^verbatim>\<open>main.go\<close> (lines 177 to 199) logs the request and calls
  \<^verbatim>\<open>proxy.ServeHTTP(w, r)\<close> with a response writer it has not touched.
  \<^verbatim>\<open>ReverseProxy.ServeHTTP\<close> of \<^verbatim>\<open>net/http/httputil\<close> clones the request, runs the
  Director on the clone and works on its headers before it hands the clone to the
  Transport; it works on the headers of the response before and after it runs
  ModifyResponse. The functions of the Go library that it calls for this are written
  out here.
\<close>

text \<open>\<^verbatim>\<open>h[key]\<close>: the values under the key as it is written, none for a missing key.\<close>

definition header_index :: "header \<Rightarrow> string \<Rightarrow> string list" where
  "header_index h key = (case h key of None \<Rightarrow> [] | Some vs \<Rightarrow> vs)"

text \<open>\<^verbatim>\<open>h.Get(key)\<close>: the first value under the canonical key, or the empty string.\<close>

definition Header_Get :: "header \<Rightarrow> string \<Rightarrow> string" where
  "Header_Get h key =
     (case h (CanonicalMIMEHeaderKey key) of None \<Rightarrow> [] | Some [] \<Rightarrow> [] | Some (v # vs) \<Rightarrow> v)"


text \<open>
  \<^verbatim>\<open>strings.Split(s, ",")\<close>: the pieces of \<open>s\<close> between its commas, one more than it
  has commas. \<^verbatim>\<open>strings.Join(elems, sep)\<close> puts \<open>sep\<close> between the elements.
\<close>

fun Split_comma :: "string \<Rightarrow> string list" where
  "Split_comma [] = [[]]"
| "Split_comma (c # cs) =
     (if c = CHR '','' then [] # Split_comma cs
      else (case Split_comma cs of [] \<Rightarrow> [[c]] | p # ps \<Rightarrow> (c # p) # ps))"

fun Join :: "string list \<Rightarrow> string \<Rightarrow> string" where
  "Join [] sep = []"
| "Join [e] sep = e"
| "Join (e # es) sep = e @ sep @ Join es sep"

text \<open>
  \<^verbatim>\<open>textproto.TrimString\<close> drops ASCII space (space, tab, line feed, carriage return)
  from both ends.
\<close>

definition isASCIISpace :: "char \<Rightarrow> bool" where
  "isASCIISpace b = (b = CHR '' '' \<or> b = CHR 0x09 \<or> b = CHR 0x0A \<or> b = CHR 0x0D)"

definition TrimString :: "string \<Rightarrow> string" where
  "TrimString s = rev (dropWhile isASCIISpace (rev (dropWhile isASCIISpace s)))"

text \<open>
  \<^verbatim>\<open>httpguts.HeaderValuesContainsToken(values, token)\<close>: some value has, between its
  commas, a piece that is the token once spaces and tabs are dropped from its ends;
  letters compare without case, and a piece with a byte outside ASCII is no token.
\<close>

definition isOWS :: "char \<Rightarrow> bool" where
  "isOWS b = (b = CHR '' '' \<or> b = CHR 0x09)"

definition trimOWS :: "string \<Rightarrow> string" where
  "trimOWS s = rev (dropWhile isOWS (rev (dropWhile isOWS s)))"

definition lowerASCII :: "char \<Rightarrow> char" where
  "lowerASCII b =
     (if CHR ''A'' \<le> b \<and> b \<le> CHR ''Z'' then char_of (of_char b + toLower) else b)"

definition tokenEqual :: "string \<Rightarrow> string \<Rightarrow> bool" where
  "tokenEqual t1 t2 =
     (length t1 = length t2 \<and> list_all (\<lambda>b. of_char b < (128 :: nat)) t1 \<and>
      map lowerASCII t1 = map lowerASCII t2)"

definition headerValueContainsToken :: "string \<Rightarrow> string \<Rightarrow> bool" where
  "headerValueContainsToken v token =
     list_ex (\<lambda>part. tokenEqual (trimOWS part) token) (Split_comma v)"

definition HeaderValuesContainsToken :: "string list \<Rightarrow> string \<Rightarrow> bool" where
  "HeaderValuesContainsToken vals token = list_ex (\<lambda>v. headerValueContainsToken v token) vals"

text \<open>\<^verbatim>\<open>ascii.IsPrint\<close>: every byte is between space and tilde.\<close>

definition IsPrint :: "string \<Rightarrow> bool" where
  "IsPrint s = list_all (\<lambda>b. CHR '' '' \<le> b \<and> b \<le> CHR ''~'') s"

text \<open>
  \<^verbatim>\<open>upgradeType(h)\<close>: the \<^verbatim>\<open>Upgrade\<close> header when \<^verbatim>\<open>Connection\<close> holds the token
  \<^verbatim>\<open>Upgrade\<close>, the empty string otherwise.
\<close>

definition upgradeType :: "header \<Rightarrow> string" where
  "upgradeType h =
     (if HeaderValuesContainsToken (header_index h ''Connection'') ''Upgrade''
      then Header_Get h ''Upgrade'' else [])"

text \<open>
  \<^verbatim>\<open>removeHopByHopHeaders(h)\<close> deletes every header that a value of \<^verbatim>\<open>Connection\<close>
  names (\<^verbatim>\<open>h.Del(sf)\<close> for each trimmed and non-empty piece \<open>sf\<close>), then the headers
  of the list \<^verbatim>\<open>hopHeaders\<close>.
\<close>

definition hopHeaders :: "string list" where
  "hopHeaders =
     [''Connection'', ''Proxy-Connection'', ''Keep-Alive'', ''Proxy-Authenticate'',
      ''Proxy-Authorization'', ''Te'', ''Trailer'', ''Transfer-Encoding'', ''Upgrade'']"

definition connection_fields :: "header \<Rightarrow> string list" where
  "connection_fields h =
     filter (\<lambda>sf. sf \<noteq> [])
       (map TrimString (concat (map Split_comma (header_index h ''Connection''))))"

definition removeHopByHopHeaders :: "header \<Rightarrow> header" where
  "removeHopByHopHeaders h =
     foldl Header_Del (foldl Header_Del h (connection_fields h)) hopHeaders"

text \<open>
  \<^verbatim>\<open>ServeHTTP\<close> from the clone of the request to the call of
  \<^verbatim>\<open>transport.RoundTrip(outreq)\<close>, in the order of its statements:
  \<^item> \<^verbatim>\<open>p.Director(outreq)\<close>;
  \<^item> \<^verbatim>\<open>reqUpType := upgradeType(outreq.Header)\<close>; a type that is not printable goes to
    the ErrorHandler and nothing is sent (\<open>Inl\<close>);
  \<^item> \<^verbatim>\<open>removeHopByHopHeaders(outreq.Header)\<close>;
  \<^item> \<^verbatim>\<open>Te: trailers\<close> is set again when the inbound request held that token;
  \<^item> \<^verbatim>\<open>Connection: Upgrade\<close> and \<^verbatim>\<open>Upgrade\<close> are set again for an upgrade;
  \<^item> when \<^verbatim>\<open>net.SplitHostPort(req.RemoteAddr)\<close> succeeds, \<^verbatim>\<open>X-Forwarded-For\<close> is set
    to the client's IP, after the values the header holds at that point; a key that is
    present without a value (\<^verbatim>\<open>nil\<close>) suppresses this;
  \<^item> a missing \<^verbatim>\<open>User-Agent\<close> is set to the empty string.

  \<open>clientIP\<close> is the host that \<^verbatim>\<open>net.SplitHostPort\<close> finds in \<^verbatim>\<open>req.RemoteAddr\<close>, and
  \<open>None\<close> when it fails; the server sets \<^verbatim>\<open>RemoteAddr\<close> to the \<^verbatim>\<open>IP:port\<close> of the
  connection. The result \<open>Inr\<close> is the request handed to the Transport, which writes
  \<^verbatim>\<open>Host\<close>, \<^verbatim>\<open>User-Agent\<close>, \<^verbatim>\<open>Content-Length\<close> and \<^verbatim>\<open>Transfer-Encoding\<close> itself.
  The log lines of the Director are left out here. \<^verbatim>\<open>outreq.Form\<close> is \<^verbatim>\<open>nil\<close>, since
  nothing parses the form, so the query is not cleaned.
\<close>

definition ReverseProxy_outreq ::
    "string \<Rightarrow> url \<Rightarrow> string option \<Rightarrow> request \<Rightarrow> string + request" where
  "ReverseProxy_outreq frontendAPIPrefix backend clientIP req =
     (let outreq = outbound frontendAPIPrefix backend req;
          reqUpType = upgradeType (request.Header outreq)
      in if \<not> IsPrint reqUpType then Inl reqUpType
         else
           (let h = removeHopByHopHeaders (request.Header outreq);
                h = (if HeaderValuesContainsToken (header_index (request.Header req) ''Te'')
                          ''trailers''
                     then Header_Set h ''Te'' ''trailers'' else h);
                h = (if reqUpType \<noteq> []
                     then Header_Set (Header_Set h ''Connection'' ''Upgrade'') ''Upgrade'' reqUpType
                     else h);
                h = (case clientIP of
                       None \<Rightarrow> h
                     | Some ip \<Rightarrow>
                         (let prior = header_index h ''X-Forwarded-For'';
                              omit = (h ''X-Forwarded-For'' = Some []);
                              ip = (if 0 < length prior then Join prior '', '' @ '', '' @ ip
                                    else ip)
                          in if omit then h else Header_Set h ''X-Forwarded-For'' ip));
                h = (if h ''User-Agent'' = None then Header_Set h ''User-Agent'' '''' else h)
            in Inr (outreq\<lparr>request.Header := h\<rparr>)))"





section \<open>The requests of the scenarios\<close>

text \<open>
  \<open>example_backend\<close> is \<^verbatim>\<open>url.Parse("https://example.com/v1/")\<close>. \<open>GET_request\<close> is
  a GET request as the server hands it to the proxy: the request target gives the path
  and the query, and the URL has neither scheme nor host.
\<close>

definition example_backend :: url where
  "example_backend =
     \<lparr>Scheme = ''https'', url.Host = ''example.com'', Path = ''/v1/'', RawQuery = ''''\<rparr>"

definition GET_request :: "string \<Rightarrow> string \<Rightarrow> header \<Rightarrow> request" where
  "GET_request p q h =
     \<lparr>Method = ''GET'',
      URL = \<lparr>Scheme = '''', url.Host = '''', Path = p, RawQuery = q\<rparr>,
      request.Host = ''localhost:8080'', request.Header = h, request.Body = ''''\<rparr>"

text \<open>
  A request with two \<^verbatim>\<open>Cookie\<close> lines, two forwarding headers and a
  \<^verbatim>\<open>Connection\<close> header of its own.
\<close>

definition cookie_request :: request where
  "cookie_request =
     GET_request ''/api/users'' ''x=1''
       [''Cookie'' \<mapsto> [''session=abc123'', ''theme=dark''],
        ''X-Forwarded-For'' \<mapsto> [''10.0.0.1''],
        ''X-Real-Ip'' \<mapsto> [''10.0.0.1''],
        ''Connection'' \<mapsto> [''keep-alive'']]"

text \<open>
  \<^verbatim>\<open>url.Parse("http://example.com?v=1/")\<close>, the backend for
  \<^verbatim>\<open>-backend "http://example.com?v=1"\<close>: the slash that \<^verbatim>\<open>init\<close> appends falls into the
  query, and the path is empty.
\<close>

definition pathless_backend :: url where
  "pathless_backend =
     \<lparr>Scheme = ''http'', url.Host = ''example.com'', Path = '''', RawQuery = ''v=1/''\<rparr>"

text \<open>
  \<^verbatim>\<open>url.Parse("http://localhost:3000/")\<close>, the backend for
  \<^verbatim>\<open>-backend "http://localhost:3000"\<close>: its path is the root.
\<close>

definition root_backend :: url where
  "root_backend =
     \<lparr>Scheme = ''http'', url.Host = ''localhost:3000'', Path = ''/'', RawQuery = ''''\<rparr>"

text \<open>
  \<^verbatim>\<open>url.Parse("https://example.com/v1//")\<close>: a backend whose path ends with two
  slashes.
\<close>

definition double_slash_backend :: url where
  "double_slash_backend =
     \<lparr>Scheme = ''https'', url.Host = ''example.com'', Path = ''/v1//'', RawQuery = ''''\<rparr>"

text \<open>
  A response with status 200, two \<^verbatim>\<open>Set-Cookie\<close> lines and the hop-by-hop headers
  \<^verbatim>\<open>Connection\<close> and \<^verbatim>\<open>Keep-Alive\<close>; it announces no trailer.
\<close>

definition two_cookie_response :: response where
  "two_cookie_response =
     \<lparr>Status = ''200 OK'', StatusCode = 200,
      response.Header = [''Set-Cookie'' \<mapsto> [''session=abc123; Path=/'', ''theme=dark; HttpOnly''],
                         ''Content-Type'' \<mapsto> [''application/json''],
                         ''Connection'' \<mapsto> [''keep-alive''],
                         ''Keep-Alive'' \<mapsto> [''timeout=5'']],
      Trailer = [], response.Body = ''{}''\<rparr>"

section \<open>Facts about the library functions\<close>

lemma HasPrefix_iff_prefix: "HasPrefix s pre = prefix pre s"
  unfolding HasPrefix_def prefix_def
  by (metis append_eq_conv_conj append_take_drop_id length_append le_add1)

lemma TrimPrefix_slash: "TrimPrefix s ''/'' = strip_leading_slash s"
  by (cases s) (simp_all add: TrimPrefix_def HasPrefix_def)

lemma Contains_iff_sublist: "Contains s substr = sublist substr s"
  by (induction s) (simp_all add: HasPrefix_iff_prefix sublist_Cons_right)

lemma canonical_keys:
  "CanonicalMIMEHeaderKey ''X-Forwarded-Host'' = ''X-Forwarded-Host''"
  "CanonicalMIMEHeaderKey ''X-Real-IP'' = ''X-Real-Ip''"
  "CanonicalMIMEHeaderKey ''X-Forwarded-For'' = ''X-Forwarded-For''"
  "CanonicalMIMEHeaderKey ''X-Forwarded-Proto'' = ''X-Forwarded-Proto''"
  "CanonicalMIMEHeaderKey ''Connection'' = ''Connection''"
  "CanonicalMIMEHeaderKey ''Set-Cookie'' = ''Set-Cookie''"
  "CanonicalMIMEHeaderKey ''Cookie'' = ''Cookie''"
  by code_simp+

lemma important_keys:
  "CanonicalMIMEHeaderKey ''Content-Type'' = ''Content-Type''"
  "CanonicalMIMEHeaderKey ''Content-Length'' = ''Content-Length''"
  "CanonicalMIMEHeaderKey ''Cache-Control'' = ''Cache-Control''"
  "CanonicalMIMEHeaderKey ''Access-Control-Allow-Origin'' = ''Access-Control-Allow-Origin''"
  by code_simp+

lemma Path_outbound:
  "Path (URL (outbound pre backend req)) =
     Path backend @ TrimPrefix (originalPath pre (Path (URL req))) ''/''"
  by (simp add: outbound_def Director_def Let_def)

section \<open>Path rewriting under the frontend prefix\<close>

text \<open>
  Claim C1. For every inbound path that starts with the frontend prefix, the outbound
  path is the backend base path followed by the inbound path without the prefix and
  without one leading slash, if it has one. For the inbound path that is the prefix
  itself, the outbound path is the backend base path, and so it is empty exactly when
  the backend base path is empty.
\<close>

theorem C1_prefix_path_rewritten:
  "(HasPrefix p pre \<longrightarrow>
      Path (URL (outbound pre backend (with_path req p))) =
        spec_rewritten_path (Path backend) pre p) \<and>
   Path (URL (outbound pre backend (with_path req pre))) = Path backend \<and>
   (Path (URL (outbound pre backend (with_path req pre))) = []) = (Path backend = [])"
proof -
  have own: "originalPath pre pre = ''/''"
    by (simp add: originalPath_def HasPrefix_def TrimPrefix_def)
  have root: "Path (URL (outbound pre backend (with_path req pre))) = Path backend"
    by (simp add: Path_outbound with_path_def own TrimPrefix_slash)
  have under: "Path (URL (outbound pre backend (with_path req p))) =
      spec_rewritten_path (Path backend) pre p" if "HasPrefix p pre"
  proof -
    have "originalPath pre p = (if drop (length pre) p = [] then ''/'' else drop (length pre) p)"
      using that by (simp add: originalPath_def TrimPrefix_def)
    then have "TrimPrefix (originalPath pre p) ''/'' = strip_leading_slash (drop (length pre) p)"
      by (simp add: TrimPrefix_slash)
    then show ?thesis
      by (simp add: Path_outbound with_path_def spec_rewritten_path_def)
  qed
  from root under show ?thesis by simp
qed

text \<open>
  At the request of the scenario, \<^verbatim>\<open>/api/users\<close> becomes \<^verbatim>\<open>/v1/users\<close> and
  \<^verbatim>\<open>/api/\<close> becomes \<^verbatim>\<open>/v1/\<close>.
\<close>

theorem C1_prefix_path_rewritten_witness:
  "HasPrefix ''/api/users'' ''/api/'' \<and>
   Path (URL (outbound ''/api/'' example_backend
     (with_path (GET_request ''/'' '''' Map.empty) ''/api/users''))) = ''/v1/users'' \<and>
   Path (URL (outbound ''/api/'' example_backend
     (with_path (GET_request ''/'' '''' Map.empty) ''/api/''))) = ''/v1/''"
  using C1_prefix_path_rewritten [of "''/api/users''" "''/api/''" example_backend
      "GET_request ''/'' '''' Map.empty"]
  by (simp add: HasPrefix_def spec_rewritten_path_def example_backend_def)

text \<open>
  The outbound path can be the empty string: for a backend URL whose path is empty, the
  request for the frontend prefix itself leaves with the path \<^verbatim>\<open>""\<close>. And one
  leading slash of the remainder is stripped, not every one: \<^verbatim>\<open>/api///users\<close> leaves
  as \<^verbatim>\<open>/v1//users\<close>.
\<close>

theorem C1_empty_path_counterexample:
  "Path (URL (outbound ''/api/'' pathless_backend
     (GET_request ''/api/'' '''' Map.empty))) = '''' \<and>
   Path (URL (outbound ''/api/'' example_backend
     (GET_request ''/api///users'' '''' Map.empty))) = ''/v1//users''"
  by (simp add: Path_outbound GET_request_def pathless_backend_def example_backend_def
      originalPath_def HasPrefix_def TrimPrefix_def)

section \<open>The join of the backend base path and the remainder\<close>

text \<open>
  Claim C6. For a backend base path that ends with exactly one slash (it ends with a
  slash and not with two), and every inbound path whose remainder (the inbound path
  without the frontend prefix, or the whole inbound path when it is not under the
  prefix) does not begin with two slashes, the outbound path is the base path followed
  at once by the remainder without its leading slash: before the slash at the join
  there is no slash, and after it there is none. One leading slash of the remainder is
  stripped, not more.
\<close>

theorem C6_one_slash_at_join:
  assumes "HasSuffix (Path backend) ''/''"
    and "\<not> HasSuffix (Path backend) ''//''"
    and "\<not> HasPrefix (originalPath pre p) ''//''"
  shows "\<exists>b r. Path backend = b @ ''/'' \<and> \<not> HasSuffix b ''/'' \<and>
           Path (URL (outbound pre backend (with_path req p))) = b @ ''/'' @ r \<and>
           r = TrimPrefix (originalPath pre p) ''/'' \<and> \<not> HasPrefix r ''/''"
proof -
  from assms(1) have b: "Path backend = butlast (Path backend) @ ''/''"
    by (cases "Path backend" rule: rev_cases) (simp_all add: HasSuffix_def)
  have "\<not> HasSuffix (butlast (Path backend)) ''/''"
  proof
    assume "HasSuffix (butlast (Path backend)) ''/''"
    then have "butlast (Path backend) = butlast (butlast (Path backend)) @ ''/''"
      by (cases "butlast (Path backend)" rule: rev_cases) (simp_all add: HasSuffix_def)
    with b have "Path backend = butlast (butlast (Path backend)) @ ''//''"
      by (metis append_Cons append_Nil append_assoc)
    then have "HasSuffix (Path backend) ''//''"
      by (metis HasSuffix_def append_eq_conv_conj length_append add_diff_cancel_left'
          add.commute le_add2)
    with assms(2) show False by simp
  qed
  moreover have "\<not> HasPrefix (TrimPrefix (originalPath pre p) ''/'') ''/''"
    using assms(3)
    by (cases "originalPath pre p"; cases "tl (originalPath pre p)")
       (auto simp: TrimPrefix_slash HasPrefix_def)
  moreover have "Path (URL (outbound pre backend (with_path req p))) =
      Path backend @ TrimPrefix (originalPath pre p) ''/''"
    by (simp add: Path_outbound with_path_def)
  ultimately show ?thesis
    using b by (metis append_assoc)
qed

text \<open>
  \<^verbatim>\<open>/api//users\<close> has the remainder \<^verbatim>\<open>/users\<close>, and leaves as \<^verbatim>\<open>/v1/users\<close>.
\<close>

theorem C6_one_slash_at_join_witness:
  "HasSuffix (Path example_backend) ''/'' \<and>
   \<not> HasSuffix (Path example_backend) ''//'' \<and>
   \<not> HasPrefix (originalPath ''/api/'' ''/api//users'') ''//'' \<and>
   Path (URL (outbound ''/api/'' example_backend
     (with_path (GET_request ''/'' '''' Map.empty) ''/api//users''))) = ''/v1/users''"
  using C6_one_slash_at_join [of example_backend "''/api/''" "''/api//users''"
      "GET_request ''/'' '''' Map.empty"]
  by (simp add: example_backend_def HasSuffix_def HasPrefix_def originalPath_def TrimPrefix_def)

text \<open>
  Three requests for which the join is not one slash. \<^verbatim>\<open>/api///users\<close> has the
  remainder \<^verbatim>\<open>//users\<close> and leaves with two slashes after \<^verbatim>\<open>/v1\<close>. For the backend
  whose path is empty, \<^verbatim>\<open>/api/users\<close> leaves as \<^verbatim>\<open>users\<close>, with no slash at all. For
  the backend whose path is \<^verbatim>\<open>/v1//\<close>, \<^verbatim>\<open>/api/users\<close> leaves with two slashes
  before \<^verbatim>\<open>users\<close>.
\<close>

theorem C6_double_slash_counterexample:
  "Path (URL (outbound ''/api/'' example_backend
     (GET_request ''/api///users'' '''' Map.empty))) = ''/v1//users'' \<and>
   Path (URL (outbound ''/api/'' pathless_backend
     (GET_request ''/api/users'' '''' Map.empty))) = ''users'' \<and>
   Path (URL (outbound ''/api/'' double_slash_backend
     (GET_request ''/api/users'' '''' Map.empty))) = ''/v1//users''"
  by (simp add: Path_outbound GET_request_def pathless_backend_def example_backend_def
      double_slash_backend_def originalPath_def HasPrefix_def TrimPrefix_def)

section \<open>Paths outside the frontend prefix\<close>

text \<open>
  Claim C9. For every inbound path, under the frontend prefix or not, the backend base
  path is a prefix of the outbound path. A path that is not under the frontend prefix
  is grafted onto the backend base path: the outbound path is the base path followed by
  the inbound path without one leading slash. That is the inbound path again exactly
  when the backend base path is the root \<^verbatim>\<open>/\<close> (for an inbound path without a leading
  slash: when it is empty).
\<close>

theorem C9_backend_path_is_prefix:
  "prefix (Path backend) (Path (URL (outbound pre backend (with_path req p)))) \<and>
   (\<not> HasPrefix p pre \<longrightarrow>
      Path (URL (outbound pre backend (with_path req p))) =
        Path backend @ strip_leading_slash p \<and>
      (Path (URL (outbound pre backend (with_path req p))) = p) =
        (Path backend = (if HasPrefix p ''/'' then ''/'' else '''')))"
proof -
  have "(Path backend @ strip_leading_slash p = p) =
      (Path backend = (if HasPrefix p ''/'' then ''/'' else ''''))"
  proof (cases p)
    case Nil
    then show ?thesis by (simp add: HasPrefix_def)
  next
    case (Cons c cs)
    show ?thesis
    proof (cases "c = CHR ''/''")
      case True
      have "(Path backend @ cs = ''/'' @ cs) = (Path backend = ''/'')"
        by (rule append_same_eq)
      with True Cons show ?thesis by (simp add: HasPrefix_def)
    next
      case False
      have "(Path backend @ c # cs = [] @ c # cs) = (Path backend = [])"
        by (rule append_same_eq)
      with False Cons show ?thesis by (simp add: HasPrefix_def)
    qed
  qed
  then show ?thesis
    by (simp add: Path_outbound with_path_def originalPath_def TrimPrefix_slash)
qed

text \<open>\<^verbatim>\<open>/health\<close> is not under \<^verbatim>\<open>/api/\<close>, and leaves as \<^verbatim>\<open>/v1/health\<close>.\<close>

theorem C9_backend_path_is_prefix_witness:
  "\<not> HasPrefix ''/health'' ''/api/'' \<and>
   Path (URL (outbound ''/api/'' example_backend
     (with_path (GET_request ''/'' '''' Map.empty) ''/health''))) = ''/v1/health'' \<and>
   prefix ''/v1/'' ''/v1/health''"
  using C9_backend_path_is_prefix [of example_backend "''/api/''"
      "GET_request ''/'' '''' Map.empty" "''/health''"]
  by (simp add: example_backend_def HasPrefix_def)

text \<open>
  A request outside the prefix that is forwarded with its path as it came: the backend
  base path is \<^verbatim>\<open>/\<close>, and \<^verbatim>\<open>/health\<close> leaves as \<^verbatim>\<open>/health\<close>.
\<close>

theorem C9_root_backend_counterexample:
  "\<not> HasPrefix ''/health'' ''/api/'' \<and>
   Path (URL (outbound ''/api/'' root_backend (GET_request ''/health'' '''' Map.empty))) =
     ''/health''"
  by (simp add: Path_outbound GET_request_def root_backend_def originalPath_def
      HasPrefix_def TrimPrefix_def)

section \<open>Scheme, host and query of the outbound request\<close>

text \<open>
  Claim C5. The scheme and the host of the outbound URL are the backend's, and the
  query string, the method and the body are the inbound ones. With the frontend prefix
  \<^verbatim>\<open>/api/\<close> and the backend \<^verbatim>\<open>https://example.com/v1/\<close>, the request
  \<^verbatim>\<open>GET /api/users?x=1\<close> leaves as \<^verbatim>\<open>GET\<close> with scheme \<^verbatim>\<open>https\<close>, host
  \<^verbatim>\<open>example.com\<close>, path \<^verbatim>\<open>/v1/users\<close> and query \<^verbatim>\<open>x=1\<close>.
\<close>

theorem C5_scheme_host_query:
  "Scheme (URL (outbound pre backend req)) = Scheme backend \<and>
   url.Host (URL (outbound pre backend req)) = url.Host backend \<and>
   RawQuery (URL (outbound pre backend req)) = RawQuery (URL req) \<and>
   Method (outbound pre backend req) = Method req \<and>
   request.Body (outbound pre backend req) = request.Body req \<and>
   URL (outbound ''/api/'' example_backend (GET_request ''/api/users'' ''x=1'' Map.empty)) =
     \<lparr>Scheme = ''https'', url.Host = ''example.com'', Path = ''/v1/users'',
      RawQuery = ''x=1''\<rparr> \<and>
   Method (outbound ''/api/'' example_backend (GET_request ''/api/users'' ''x=1'' Map.empty)) =
     ''GET''"
  by (simp add: outbound_def Director_def Let_def example_backend_def GET_request_def
      originalPath_def HasPrefix_def TrimPrefix_def)

section \<open>Request headers\<close>

text \<open>The header map as the Director leaves it.\<close>

lemma Header_outbound:
  "request.Header (outbound pre backend req) =
     (request.Header req)(''X-Forwarded-Host'' := None, ''X-Real-Ip'' := None,
        ''X-Forwarded-For'' := None, ''X-Forwarded-Proto'' := None,
        ''Connection'' \<mapsto> [''close''])"
  by (simp add: outbound_def Director_def Let_def Header_Del_def Header_Set_def canonical_keys)

lemma hop_keys: "map CanonicalMIMEHeaderKey hopHeaders = hopHeaders"
  by code_simp

lemma more_keys:
  "CanonicalMIMEHeaderKey ''close'' = ''Close''"
  "CanonicalMIMEHeaderKey ''keep-alive'' = ''Keep-Alive''"
  "CanonicalMIMEHeaderKey ''User-Agent'' = ''User-Agent''"
  "CanonicalMIMEHeaderKey ''Te'' = ''Te''"
  "CanonicalMIMEHeaderKey ''Upgrade'' = ''Upgrade''"
  "CanonicalMIMEHeaderKey ''Trailer'' = ''Trailer''"
  by code_simp+

lemma close_fields:
  "Split_comma ''close'' = [''close'']"
  "TrimString ''close'' = ''close''"
  "headerValueContainsToken ''close'' ''Upgrade'' = False"
  by code_simp+

lemma foldl_Header_Del:
  "foldl Header_Del h ks k = (if k \<in> CanonicalMIMEHeaderKey ` set ks then None else h k)"
  by (induction ks arbitrary: h) (auto simp: Header_Del_def)

lemma removeHopByHopHeaders_apply:
  "removeHopByHopHeaders h k =
     (if k \<in> set hopHeaders \<or> k \<in> CanonicalMIMEHeaderKey ` set (connection_fields h)
      then None else h k)"
  using hop_keys
  by (auto simp: removeHopByHopHeaders_def foldl_Header_Del simp flip: set_map)

text \<open>
  After the Director, \<^verbatim>\<open>Connection\<close> is \<^verbatim>\<open>close\<close>: the request asks for no upgrade,
  and the one header that \<^verbatim>\<open>Connection\<close> names is \<^verbatim>\<open>Close\<close>.
\<close>

lemma upgradeType_outbound: "upgradeType (request.Header (outbound pre backend req)) = []"
  by (simp add: Header_outbound upgradeType_def header_index_def HeaderValuesContainsToken_def
      close_fields)

lemma connection_fields_outbound:
  "connection_fields (request.Header (outbound pre backend req)) = [''close'']"
  by (simp add: Header_outbound connection_fields_def header_index_def close_fields)

lemma removeHop_outbound:
  "removeHopByHopHeaders (request.Header (outbound pre backend req)) k =
     (if k \<in> set hopHeaders \<or>
         k \<in> {''Close'', ''X-Forwarded-Host'', ''X-Real-Ip'', ''X-Forwarded-For'',
                ''X-Forwarded-Proto''}
      then None else request.Header req k)"
  by (simp add: removeHopByHopHeaders_apply connection_fields_outbound more_keys)
     (auto simp: Header_outbound hopHeaders_def)

text \<open>Every request is handed to the Transport, with these headers.\<close>

lemma ReverseProxy_outreq_sent:
  "\<exists>h. ReverseProxy_outreq pre backend clientIP req =
          Inr ((outbound pre backend req)\<lparr>request.Header := h\<rparr>) \<and>
        h ''X-Forwarded-For'' = map_option (\<lambda>ip. [ip]) clientIP \<and>
        h ''User-Agent'' =
          (case request.Header req ''User-Agent'' of
             None \<Rightarrow> Some [''''] | Some vs \<Rightarrow> Some vs) \<and>
        (\<forall>k. k \<notin> {''Te'', ''X-Forwarded-For'', ''User-Agent''} \<longrightarrow>
           h k = removeHopByHopHeaders (request.Header (outbound pre backend req)) k)"
proof -
  have x: "removeHopByHopHeaders (request.Header (outbound pre backend req))
      ''X-Forwarded-For'' = None"
    by (simp add: removeHop_outbound)
  have u: "removeHopByHopHeaders (request.Header (outbound pre backend req)) ''User-Agent'' =
      request.Header req ''User-Agent''"
    by (simp add: removeHop_outbound hopHeaders_def)
  show ?thesis
    by (cases clientIP)
       (auto simp: ReverseProxy_outreq_def Let_def upgradeType_outbound IsPrint_def
          Header_Set_def canonical_keys more_keys header_index_def x u split: option.splits)
qed




text \<open>
  Claim C4. The Director deletes the four forwarding headers, but the request that is
  handed to the Transport carries \<^verbatim>\<open>X-Forwarded-For\<close> again: for every inbound request
  of a client whose address splits, the header holds the client's IP and nothing else.
  \<^verbatim>\<open>X-Forwarded-Host\<close>, \<^verbatim>\<open>X-Real-IP\<close> and \<^verbatim>\<open>X-Forwarded-Proto\<close> are absent. The
  request that came with \<^verbatim>\<open>X-Forwarded-For: 10.0.0.1\<close> from the client 127.0.0.1 is
  handed over with \<^verbatim>\<open>X-Forwarded-For: 127.0.0.1\<close>.
\<close>

theorem C4_x_forwarded_for_sent:
  "(\<exists>r. ReverseProxy_outreq pre backend (Some ip) req = Inr r \<and>
      request.Header r ''X-Forwarded-For'' = Some [ip] \<and>
      Header_Values (request.Header r) ''X-Forwarded-For'' = [ip] \<and>
      request.Header r ''X-Forwarded-Host'' = None \<and>
      request.Header r ''X-Real-Ip'' = None \<and>
      request.Header r ''X-Forwarded-Proto'' = None) \<and>
   request.Header cookie_request ''X-Forwarded-For'' = Some [''10.0.0.1''] \<and>
   (\<exists>r. ReverseProxy_outreq ''/api/'' example_backend (Some ''127.0.0.1'') cookie_request =
          Inr r \<and>
      request.Header r ''X-Forwarded-For'' = Some [''127.0.0.1''])"
proof -
  have "\<exists>r. ReverseProxy_outreq pre backend (Some ip) req = Inr r \<and>
      request.Header r ''X-Forwarded-For'' = Some [ip] \<and>
      Header_Values (request.Header r) ''X-Forwarded-For'' = [ip] \<and>
      request.Header r ''X-Forwarded-Host'' = None \<and>
      request.Header r ''X-Real-Ip'' = None \<and>
      request.Header r ''X-Forwarded-Proto'' = None" for pre backend ip req
  proof -
    obtain h where h: "ReverseProxy_outreq pre backend (Some ip) req =
          Inr ((outbound pre backend req)\<lparr>request.Header := h\<rparr>)"
        "h ''X-Forwarded-For'' = Some [ip]"
        "\<And>k. k \<notin> {''Te'', ''X-Forwarded-For'', ''User-Agent''} \<Longrightarrow>
           h k = removeHopByHopHeaders (request.Header (outbound pre backend req)) k"
      using ReverseProxy_outreq_sent [of pre backend "Some ip" req] by auto
    show ?thesis
      by (simp add: h removeHop_outbound hopHeaders_def Header_Values_def canonical_keys)
  qed
  from this [of pre backend ip req]
    this [of "''/api/''" example_backend "''127.0.0.1''" cookie_request]
  have "request.Header cookie_request ''X-Forwarded-For'' = Some [''10.0.0.1''] \<Longrightarrow> ?thesis"
    by blast
  then show ?thesis
    by (simp add: cookie_request_def GET_request_def)
qed

section \<open>The values of the Transport\<close>

text \<open>
  Claim C8. The Transport has these values: certificate verification is skipped; the
  response-header timeout is 60 seconds; an idle connection lives 120 seconds; at most
  100 idle connections are kept, and 10 for one host; the dialer's timeout and its
  keep-alive interval are 30 seconds each; HTTP/2 is attempted.
\<close>

theorem C8_transport_values:
  "InsecureSkipVerify (TLSClientConfig Transport) \<and>
   ResponseHeaderTimeout Transport = 60 * Second \<and>
   IdleConnTimeout Transport = 120 * Second \<and>
   MaxIdleConns Transport = 100 \<and>
   MaxIdleConnsPerHost Transport = 10 \<and>
   Timeout (DialContext Transport) = 30 * Second \<and>
   KeepAlive (DialContext Transport) = 30 * Second \<and>
   ForceAttemptHTTP2 Transport \<and>
   Second = 1000000000"
  by (simp add: Transport_def Second_def)

section \<open>The response on its way to the caller\<close>


text \<open>What ModifyResponse logs for the response with two \<^verbatim>\<open>Set-Cookie\<close> lines.\<close>

lemma ModifyResponse_log:
  "snd (ModifyResponse two_cookie_response) =
     [Response_received ''200 OK'', Found_Set_Cookie_headers 2,
      Set_Cookie 0 ''session=abc123; Path=/'', Set_Cookie 1 ''theme=dark; HttpOnly'',
      Response_Header ''Content-Type'' ''application/json'']"
  by (simp add: ModifyResponse_def Let_def two_cookie_response_def Header_Values_def
      canonical_keys important_keys importantHeaders_def enumerate_eq_zip upt_rec)






section \<open>The status for a transport failure\<close>

lemma caller_status_eq:
  "caller_status r err =
     (if Contains err ''timeout'' then 504
      else if Contains err ''connection refused'' then 503 else 502)"
  by (simp add: caller_status_def ErrorHandler_def Let_def http_Error_def
      StatusGatewayTimeout_def StatusServiceUnavailable_def StatusBadGateway_def)

text \<open>
  Claim C2. For every failure description handed to the ErrorHandler, the status
  written to the caller is 504 when the description contains \<^verbatim>\<open>timeout\<close>; 503 when it
  contains \<^verbatim>\<open>connection refused\<close> and does not contain \<^verbatim>\<open>timeout\<close>; and 502 when it
  contains neither.
\<close>

theorem C2_status_by_description:
  "(Contains e1 ''timeout'' \<longrightarrow> caller_status r e1 = 504) \<and>
   (\<not> Contains e2 ''timeout'' \<and> Contains e2 ''connection refused'' \<longrightarrow>
      caller_status r e2 = 503) \<and>
   (\<not> Contains e3 ''timeout'' \<and> \<not> Contains e3 ''connection refused'' \<longrightarrow>
      caller_status r e3 = 502)"
  by (simp add: caller_status_eq)

text \<open>One description for each of the three cases.\<close>

theorem C2_status_by_description_witness:
  "Contains ''net/http: timeout awaiting response headers'' ''timeout'' \<and>
   caller_status (GET_request ''/api/users'' ''x=1'' Map.empty)
     ''net/http: timeout awaiting response headers'' = 504 \<and>
   \<not> Contains ''dial tcp 10.0.0.1:443: connect: connection refused'' ''timeout'' \<and>
   Contains ''dial tcp 10.0.0.1:443: connect: connection refused'' ''connection refused'' \<and>
   caller_status (GET_request ''/api/users'' ''x=1'' Map.empty)
     ''dial tcp 10.0.0.1:443: connect: connection refused'' = 503 \<and>
   \<not> Contains ''EOF'' ''timeout'' \<and> \<not> Contains ''EOF'' ''connection refused'' \<and>
   caller_status (GET_request ''/api/users'' ''x=1'' Map.empty) ''EOF'' = 502"
  using C2_status_by_description [of "''net/http: timeout awaiting response headers''"
      "GET_request ''/api/users'' ''x=1'' Map.empty"
      "''dial tcp 10.0.0.1:443: connect: connection refused''" "''EOF''"]
  by (simp add: HasPrefix_def)

text \<open>
  A description that contains \<^verbatim>\<open>connection refused\<close> does not always give 503: this
  one contains \<^verbatim>\<open>timeout\<close> as well, and the caller receives 504.
\<close>

theorem C2_refused_after_timeout_counterexample:
  "Contains ''i/o timeout; retry: connection refused'' ''connection refused'' \<and>
   caller_status (GET_request ''/api/users'' ''x=1'' Map.empty)
     ''i/o timeout; retry: connection refused'' = 504"
  by (simp add: caller_status_eq HasPrefix_def)

text \<open>
  Claim C10. \<^verbatim>\<open>timeout\<close> is tested before \<^verbatim>\<open>connection refused\<close>: for every
  description that contains both, the caller receives 504 and not 503. The ErrorHandler
  answers every description, with one of the statuses 504, 503 and 502.
\<close>

theorem C10_timeout_first_and_total:
  "(Contains err ''timeout'' \<and> Contains err ''connection refused'' \<longrightarrow>
      caller_status r err = 504 \<and> caller_status r err \<noteq> 503) \<and>
   caller_status r err \<in> {504, 503, 502}"
  by (simp add: caller_status_eq)

theorem C10_timeout_first_and_total_witness:
  "Contains ''dial tcp: i/o timeout; retry: connection refused'' ''timeout'' \<and>
   Contains ''dial tcp: i/o timeout; retry: connection refused'' ''connection refused'' \<and>
   caller_status (GET_request ''/api/users'' ''x=1'' Map.empty)
     ''dial tcp: i/o timeout; retry: connection refused'' = 504"
  using C10_timeout_first_and_total [of "''dial tcp: i/o timeout; retry: connection refused''"
      "GET_request ''/api/users'' ''x=1'' Map.empty"]
  by (simp add: HasPrefix_def)

end
